theory Spec2Isabelle
  imports Complex_Main "HOL-Library.AList"
begin

section \<open>Execution states and the engine's status report\<close>

text \<open>
  \<^verbatim>\<open>class State(str, Enum)\<close> of \<^verbatim>\<open>titan/models/workflow.py\<close>. The enum mixes in
  \<^verbatim>\<open>str\<close>, so a member compares equal to the plain string that is its value; the
  test \<^verbatim>\<open>s in [State.STATUS_DONE]\<close> of the routes is a comparison of strings.
\<close>

datatype State =
    STATUS_UNKNOWN
  | STATUS_REVOKED
  | STATUS_PENDING
  | STATUS_RUNNING
  | STATUS_FAILED
  | STATUS_DONE

fun State_value :: "State \<Rightarrow> string" where
  "State_value STATUS_UNKNOWN = ''UNKNOWN''"
| "State_value STATUS_REVOKED = ''REVOKED''"
| "State_value STATUS_PENDING = ''PENDING''"
| "State_value STATUS_RUNNING = ''RUNNING''"
| "State_value STATUS_FAILED = ''FAILED''"
| "State_value STATUS_DONE = ''DONE''"

definition State_members :: "State list" where
  "State_members =
     [STATUS_UNKNOWN, STATUS_REVOKED, STATUS_PENDING, STATUS_RUNNING, STATUS_FAILED, STATUS_DONE]"

text \<open>The exceptions the modelled code can raise.\<close>

datatype py_error = KeyError | ValueError | AttributeError | ValidationError

text \<open>
  \<^verbatim>\<open>str.upper()\<close>. A \<^typ>\<open>string\<close> holds the bytes of the UTF-8 encoding of the
  Python string. The ASCII letters are mapped one by one. Of the characters beyond
  ASCII, those whose upper case consists of ASCII letters only are mapped to it: the
  dotless i (bytes C4 B1) to \<^verbatim>\<open>I\<close>, the long s (C5 BF) to \<^verbatim>\<open>S\<close>, the sharp s (C3 9F)
  to \<^verbatim>\<open>SS\<close>, and the ligatures ff, fi, fl, ffi, ffl and the two st (EF AC 80 to
  EF AC 86). The upper case of every other character beyond ASCII contains a character
  beyond ASCII; its bytes are left as they are, which keeps the string apart from
  every value of \<^verbatim>\<open>State\<close>, as it is in Python.
\<close>

definition upper_char :: "char \<Rightarrow> char" where
  "upper_char c =
     (case map_of (zip ''abcdefghijklmnopqrstuvwxyz'' ''ABCDEFGHIJKLMNOPQRSTUVWXYZ'') c of
        None \<Rightarrow> c
      | Some u \<Rightarrow> u)"

definition two_byte_upper :: "char \<Rightarrow> char \<Rightarrow> string" where
  "two_byte_upper a b =
     (if a = CHR 0xC4 \<and> b = CHR 0xB1 then ''I''
      else if a = CHR 0xC5 \<and> b = CHR 0xBF then ''S''
      else if a = CHR 0xC3 \<and> b = CHR 0x9F then ''SS''
      else [])"

definition ligature_upper :: "char \<Rightarrow> char \<Rightarrow> char \<Rightarrow> string" where
  "ligature_upper a b c =
     (if a = CHR 0xEF \<and> b = CHR 0xAC then
        (case map_of
           [(CHR 0x80, ''FF''), (CHR 0x81, ''FI''), (CHR 0x82, ''FL''), (CHR 0x83, ''FFI''),
            (CHR 0x84, ''FFL''), (CHR 0x85, ''ST''), (CHR 0x86, ''ST'')] c of
           None \<Rightarrow> []
         | Some u \<Rightarrow> u)
      else [])"

fun upper :: "string \<Rightarrow> string" where
  "upper (a # b # c # cs) =
     (if ligature_upper a b c \<noteq> [] then ligature_upper a b c @ upper cs
      else if two_byte_upper a b \<noteq> [] then two_byte_upper a b @ upper (c # cs)
      else upper_char a # upper (b # c # cs))"
| "upper [a, b] =
     (if two_byte_upper a b \<noteq> [] then two_byte_upper a b else [upper_char a, upper_char b])"
| "upper [a] = [upper_char a]"
| "upper [] = []"

text \<open>
  One entry of the \<^verbatim>\<open>tasks\<close> list of the engine's report, as far as the routes and
  the model \<^verbatim>\<open>Task\<close> read it: the keys \<^verbatim>\<open>name\<close> and \<^verbatim>\<open>status\<close>, each a string or
  none (absent or null, which the code does not tell apart), and the keys \<^verbatim>\<open>params\<close>
  and \<^verbatim>\<open>inputs\<close>, each absent, null or a dictionary. The remaining keys (the two
  timestamps and \<^verbatim>\<open>result\<close>) are optional in \<^verbatim>\<open>Task\<close> and taken to be well typed. The
  report itself carries the list and the optional \<^verbatim>\<open>is_revoked\<close> flag.
\<close>

datatype dict_field = Absent | Null | Dict

record task_report =
  tr_name :: "string option"
  tr_status :: "string option"
  tr_params :: dict_field
  tr_inputs :: dict_field

record status_response =
  resp_tasks :: "task_report list"
  resp_is_revoked :: "bool option"

text \<open>
  \<^verbatim>\<open>class Task(BaseModel)\<close>, applied to a dictionary: \<^verbatim>\<open>name: str\<close> is required;
  \<^verbatim>\<open>status: State = None\<close> is none or the value of a member of \<^verbatim>\<open>State\<close>, as
  written; \<^verbatim>\<open>params: dict = {}\<close> and \<^verbatim>\<open>inputs: dict = {}\<close> take their default when the
  key is absent and refuse a null. The constructor raises a validation error otherwise.
\<close>

definition Task_valid :: "task_report \<Rightarrow> bool" where
  "Task_valid t =
     (tr_name t \<noteq> None \<and>
      (case tr_status t of
         None \<Rightarrow> True
       | Some s \<Rightarrow> s \<in> set (map State_value State_members)) \<and>
      tr_params t \<noteq> Null \<and> tr_inputs t \<noteq> Null)"

text \<open>\<^verbatim>\<open>response.get("is_revoked")\<close> used as a condition: absent and false are falsy.\<close>

definition truthy :: "bool option \<Rightarrow> bool" where
  "truthy b = (case b of None \<Rightarrow> False | Some v \<Rightarrow> v)"

text \<open>Python's \<^verbatim>\<open>all\<close> and \<^verbatim>\<open>any\<close> on a list of booleans.\<close>

definition py_all :: "bool list \<Rightarrow> bool" where
  "py_all bs = list_all (\<lambda>b. b) bs"

definition py_any :: "bool list \<Rightarrow> bool" where
  "py_any bs = list_ex (\<lambda>b. b) bs"

text \<open>
  The local helper of every status route,
  \<^verbatim>\<open>def _check(comp, stats): return comp([s in stats for s in tasks_statuses_only])\<close>,
  with the list it closes over as first argument.
\<close>

definition check :: "string list \<Rightarrow> (bool list \<Rightarrow> bool) \<Rightarrow> State list \<Rightarrow> bool" where
  "check tasks_statuses_only comp_fn stats =
     comp_fn (map (\<lambda>s. s \<in> set (map State_value stats)) tasks_statuses_only)"

subsection \<open>Version 3 of the API: the routes \<^verbatim>\<open>/status\<close> and \<^verbatim>\<open>/fstatus\<close>\<close>

text \<open>
  The loop \<^verbatim>\<open>for task in response["tasks"]\<close> of \<^verbatim>\<open>titan/routes/v3/workflow.py\<close>:
  \<^verbatim>\<open>Task(**task)\<close> first, then \<^verbatim>\<open>task.get("status").upper()\<close>, which raises an
  attribute error on an absent status. The first entry that raises ends the loop.
\<close>

fun read_tasks_v3 :: "task_report list \<Rightarrow> py_error + (task_report list \<times> string list)" where
  "read_tasks_v3 [] = Inr ([], [])"
| "read_tasks_v3 (task # rest) =
     (if \<not> Task_valid task then Inl ValidationError
      else case tr_status task of
             None \<Rightarrow> Inl AttributeError
           | Some s \<Rightarrow>
               (case read_tasks_v3 rest of
                  Inl e \<Rightarrow> Inl e
                | Inr (tasks_with_status, tasks_statuses_only) \<Rightarrow>
                    Inr (task # tasks_with_status, upper s # tasks_statuses_only)))"

text \<open>The chain \<^verbatim>\<open>if response.get("is_revoked") ... else\<close> of \<^verbatim>\<open>/status\<close> (lines 225 to 238).\<close>

definition global_status_v3 :: "bool \<Rightarrow> string list \<Rightarrow> State" where
  "global_status_v3 revoked sts =
     (if revoked then STATUS_REVOKED
      else if check sts py_all [STATUS_DONE] then STATUS_DONE
      else if check sts py_any [STATUS_FAILED] then STATUS_FAILED
      else if check sts py_all [STATUS_PENDING] then STATUS_PENDING
      else if check sts py_any [STATUS_PENDING] \<and> \<not> check sts py_any [STATUS_FAILED]
        then STATUS_PENDING
      else if check sts py_any [STATUS_RUNNING] \<and> \<not> check sts py_any [STATUS_FAILED]
        then STATUS_RUNNING
      else STATUS_UNKNOWN)"

text \<open>The same chain as \<^verbatim>\<open>/fstatus\<close> repeats it (lines 321 to 334).\<close>

definition global_fstatus_v3 :: "bool \<Rightarrow> string list \<Rightarrow> State" where
  "global_fstatus_v3 revoked sts =
     (if revoked then STATUS_REVOKED
      else if check sts py_all [STATUS_DONE] then STATUS_DONE
      else if check sts py_any [STATUS_FAILED] then STATUS_FAILED
      else if check sts py_all [STATUS_PENDING] then STATUS_PENDING
      else if check sts py_any [STATUS_PENDING] \<and> \<not> check sts py_any [STATUS_FAILED]
        then STATUS_PENDING
      else if check sts py_any [STATUS_RUNNING] \<and> \<not> check sts py_any [STATUS_FAILED]
        then STATUS_RUNNING
      else STATUS_UNKNOWN)"

text \<open>
  The value of \<^verbatim>\<open>workflow_with_status\<close> at the end of
  \<^verbatim>\<open>try: ... except Exception: logger.error(...)\<close> in the loop body of \<^verbatim>\<open>/status\<close>, for
  one executed workflow whose report arrived: the pair of its \<^verbatim>\<open>tasks\<close> and its
  \<^verbatim>\<open>status\<close>. On any exception the value built before the \<^verbatim>\<open>try\<close> stays: no tasks,
  \<^verbatim>\<open>STATUS_UNKNOWN\<close>.
\<close>

definition status_v3 :: "status_response \<Rightarrow> task_report list option \<times> State" where
  "status_v3 response =
     (case read_tasks_v3 (resp_tasks response) of
        Inl e \<Rightarrow> (None, STATUS_UNKNOWN)
      | Inr (tasks_with_status, tasks_statuses_only) \<Rightarrow>
          (Some tasks_with_status,
           global_status_v3 (truthy (resp_is_revoked response)) tasks_statuses_only))"

text \<open>
  The same value in the loop body of \<^verbatim>\<open>/fstatus\<close> (lines 294 to 340). Whether the route
  returns the workflow is decided after it, by \<open>fstatus_step\<close> below.
\<close>

definition fstatus_v3 :: "status_response \<Rightarrow> task_report list option \<times> State" where
  "fstatus_v3 response =
     (case read_tasks_v3 (resp_tasks response) of
        Inl e \<Rightarrow> (None, STATUS_UNKNOWN)
      | Inr (tasks_with_status, tasks_statuses_only) \<Rightarrow>
          (Some tasks_with_status,
           global_fstatus_v3 (truthy (resp_is_revoked response)) tasks_statuses_only))"

text \<open>
  The two routes from the workflows on that the database query found, each workflow
  given by the engine's report on it (it was executed and its report arrived with
  status code 200). \<^verbatim>\<open>/status\<close> answers 404 when the query found nothing, and appends
  the value of every workflow otherwise.
\<close>

datatype http_error = HTTP_404

definition status_route_v3 ::
  "status_response list \<Rightarrow> http_error + (task_report list option \<times> State) list" where
  "status_route_v3 reports =
     (if reports = [] then Inl HTTP_404 else Inr (map status_v3 reports))"

text \<open>
  \<^verbatim>\<open>/fstatus\<close> (lines 286 to 360) walks all workflows of the user with two variables,
  \<^verbatim>\<open>total_count\<close> and \<^verbatim>\<open>workflows_with_status\<close> (a third, \<^verbatim>\<open>current_count\<close>, is written
  and never read). A workflow counts only if its status
  equals the query parameter \<^verbatim>\<open>with_status\<close> (default \<^verbatim>\<open>STATUS_DONE\<close>), and is appended
  only if \<^verbatim>\<open>total_count >= skips and len(workflows_with_status) < page_size\<close>. With
  nothing appended the route answers 404; otherwise it returns the list and the count.
  \<^verbatim>\<open>page_size\<close> and \<^verbatim>\<open>page_num\<close> are at least 1 (\<^verbatim>\<open>Query(ge=1)\<close>).
\<close>

record fstatus_loop =
  fs_total_count :: nat
  fs_workflows_with_status :: "(task_report list option \<times> State) list"

definition fstatus_step ::
  "State \<Rightarrow> nat \<Rightarrow> nat \<Rightarrow> fstatus_loop \<Rightarrow> status_response \<Rightarrow> fstatus_loop" where
  "fstatus_step with_status page_size skips st response =
     (let workflow_with_status = fstatus_v3 response in
      if snd workflow_with_status = with_status
      then \<lparr>fs_total_count = fs_total_count st + 1,
            fs_workflows_with_status =
              (if skips \<le> fs_total_count st \<and> length (fs_workflows_with_status st) < page_size
               then fs_workflows_with_status st @ [workflow_with_status]
               else fs_workflows_with_status st)\<rparr>
      else st)"

definition fstatus_route_v3 ::
  "State \<Rightarrow> nat \<Rightarrow> nat \<Rightarrow> status_response list
     \<Rightarrow> http_error + ((task_report list option \<times> State) list \<times> nat)" where
  "fstatus_route_v3 with_status page_size page_num reports =
     (let st = foldl (fstatus_step with_status page_size (page_size * (page_num - 1)))
                 \<lparr>fs_total_count = 0, fs_workflows_with_status = []\<rparr> reports
      in if fs_workflows_with_status st = [] then Inl HTTP_404
         else Inr (fs_workflows_with_status st, fs_total_count st))"

subsection \<open>Version 2 of the API: the route \<^verbatim>\<open>/status\<close>\<close>

text \<open>
  The loop of \<^verbatim>\<open>titan/routes/v2/workflow.py\<close> validates nothing;
  \<^verbatim>\<open>task.get("status").upper()\<close> raises on an absent status. It collects a dictionary
  per task whose values are read with \<^verbatim>\<open>task.get\<close>, which gives \<^verbatim>\<open>None\<close> for an absent
  key, and whose status is the upper-cased one.
\<close>

definition get_field :: "dict_field \<Rightarrow> dict_field" where
  "get_field f = (case f of Absent \<Rightarrow> Null | Null \<Rightarrow> Null | Dict \<Rightarrow> Dict)"

definition task_dict_v2 :: "task_report \<Rightarrow> string \<Rightarrow> task_report" where
  "task_dict_v2 task status' =
     \<lparr>tr_name = tr_name task, tr_status = Some status',
      tr_params = get_field (tr_params task), tr_inputs = get_field (tr_inputs task)\<rparr>"

fun read_tasks_v2 :: "task_report list \<Rightarrow> py_error + (task_report list \<times> string list)" where
  "read_tasks_v2 [] = Inr ([], [])"
| "read_tasks_v2 (task # rest) =
     (case tr_status task of
        None \<Rightarrow> Inl AttributeError
      | Some s \<Rightarrow>
          (case read_tasks_v2 rest of
             Inl e \<Rightarrow> Inl e
           | Inr (tasks_with_status, tasks_status_only) \<Rightarrow>
               Inr (task_dict_v2 task (upper s) # tasks_with_status,
                    upper s # tasks_status_only)))"

text \<open>The chain of lines 242 to 251; the report's \<^verbatim>\<open>is_revoked\<close> is never read.\<close>

definition global_status_v2 :: "string list \<Rightarrow> State" where
  "global_status_v2 sts =
     (if check sts py_all [STATUS_DONE] then STATUS_DONE
      else if check sts py_all [STATUS_PENDING] then STATUS_PENDING
      else if check sts py_all [STATUS_PENDING, STATUS_RUNNING] then STATUS_RUNNING
      else if check sts py_any [STATUS_FAILED] then STATUS_FAILED
      else STATUS_UNKNOWN)"

text \<open>
  The route from the report on: no exception is caught, and the closing
  \<^verbatim>\<open>WorkflowInDBWithStatus(..., tasks=tasks_with_status, status=workflow_status)\<close>
  validates every collected dictionary against \<^verbatim>\<open>Task\<close>; there \<^verbatim>\<open>params\<close> and
  \<^verbatim>\<open>inputs\<close> are null for an entry of the report that lacks them.
\<close>

definition status_v2 :: "status_response \<Rightarrow> py_error + (task_report list \<times> State)" where
  "status_v2 response =
     (case read_tasks_v2 (resp_tasks response) of
        Inl e \<Rightarrow> Inl e
      | Inr (tasks_with_status, tasks_status_only) \<Rightarrow>
          (if list_all Task_valid tasks_with_status
           then Inr (tasks_with_status, global_status_v2 tasks_status_only)
           else Inl ValidationError))"

subsection \<open>The precedence as the specification words it\<close>


text \<open>
  An entry that the loop of version 3 reads without raising: \<^verbatim>\<open>Task(**task)\<close> accepts
  it and its status is a string.
\<close>

definition well_formed :: "task_report \<Rightarrow> bool" where
  "well_formed t = (Task_valid t \<and> tr_status t \<noteq> None)"

definition reported_status :: "task_report \<Rightarrow> string" where
  "reported_status t = (case tr_status t of None \<Rightarrow> [] | Some s \<Rightarrow> upper s)"


section \<open>The workflow document\<close>

text \<open>
  A JSON value as a parameter carries it (\<^verbatim>\<open>value: Any\<close>). A Python float is kept as
  the exact decimal number that its literal denotes.
\<close>

datatype py_value = PNone | PBool bool | PInt int | PFloat rat | PStr string

text \<open>
  The pydantic models of \<^verbatim>\<open>titan/models/workflow.py\<close>, field by field. A \<^verbatim>\<open>Dict\<close> is
  an association list in insertion order, which is the order \<^verbatim>\<open>.items()\<close> iterates in.
  \<^verbatim>\<open>operators\<close> and \<^verbatim>\<open>links\<close> of a \<^verbatim>\<open>WorkflowRequest\<close> default to \<^verbatim>\<open>None\<close>. The end
  points of a link are declared \<^verbatim>\<open>Union[str, int]\<close>; validation turns an integer into
  its string, so they are strings here.
\<close>

record Properties =
  prop_name :: string

record ParameterProperties = Properties +
  pp_value :: py_value
  pp_defaultValue :: py_value

record Definition =
  def_uri :: string

record InputOutput =
  io_properties :: Properties
  io_definition :: "Definition option"

record OperatorProperties =
  op_name :: string
  op_module :: string
  op_inputs :: "(string \<times> InputOutput) list"
  op_outputs :: "(string \<times> InputOutput) list"

record OperatorParameters =
  par_properties :: ParameterProperties
  par_definition :: "Definition option"

record Operator =
  op_properties :: OperatorProperties
  op_parameters :: "(string \<times> OperatorParameters) list"
  op_definition :: "Definition option"

record Link =
  fromOperator :: string
  fromConnector :: string
  toOperator :: string
  toConnector :: string

record WorkflowRequest =
  operators :: "(string \<times> Operator) list option"
  links :: "(string \<times> Link) list option"

text \<open>One dictionary of the list that \<^verbatim>\<open>parse_to_list\<close> returns.\<close>

record task_spec =
  t_name :: string
  t_module :: string
  t_params :: "(string \<times> py_value) list"
  t_inputs :: "(string \<times> string option) list"

section \<open>The task compiler: \<^verbatim>\<open>parse_to_list\<close>\<close>

text \<open>
  \<^verbatim>\<open>links = collections.defaultdict(dict)\<close>: every operator key has a dictionary,
  empty until written. One round of the first loop,
  \<^verbatim>\<open>links[to_op_idx][to_con_idx] = (from_op_idx, from_con_idx)\<close>, and the loop.
\<close>

type_synonym link_index = "string \<Rightarrow> (string \<rightharpoonup> string \<times> string)"

definition add_link :: "link_index \<Rightarrow> Link \<Rightarrow> link_index" where
  "add_link idx link =
     idx (toOperator link :=
       (idx (toOperator link)) (toConnector link \<mapsto> (fromOperator link, fromConnector link)))"

definition build_links :: "(string \<times> Link) list \<Rightarrow> link_index" where
  "build_links lks = foldl add_link (\<lambda>_. Map.empty) (map snd lks)"

text \<open>
  \<^verbatim>\<open>try: param_value = strconv.convert(param_value) except ValueError: pass\<close>. The
  converter is a parameter of the model; \<open>None\<close> is its raising \<^verbatim>\<open>ValueError\<close>, and it
  is taken to raise nothing else.
\<close>

definition convert_param :: "(py_value \<Rightarrow> py_value option) \<Rightarrow> py_value \<Rightarrow> py_value" where
  "convert_param conv param_value =
     (case conv param_value of None \<Rightarrow> param_value | Some v \<Rightarrow> v)"

text \<open>
  The loop over \<^verbatim>\<open>op_data["parameters"].items()\<close>, from the dictionary \<open>params\<close> built
  so far: \<^verbatim>\<open>params[param_name] = param_value\<close>. Assigning to a key that is present
  replaces its value in place; a new key goes to the end.
\<close>

definition param_step ::
  "(py_value \<Rightarrow> py_value option) \<Rightarrow> (string \<times> py_value) list \<Rightarrow> string \<times> OperatorParameters
     \<Rightarrow> (string \<times> py_value) list" where
  "param_step conv params item =
     (case item of (param_idx, param_data) \<Rightarrow>
        AList.update (prop_name (par_properties param_data))
          (convert_param conv (pp_value (par_properties param_data))) params)"

definition compile_params ::
  "(py_value \<Rightarrow> py_value option) \<Rightarrow> (string \<times> OperatorParameters) list
     \<Rightarrow> (string \<times> py_value) list" where
  "compile_params conv ps = foldl (param_step conv) [] ps"

text \<open>
  The body of the second \<^verbatim>\<open>try\<close>: the three subscriptions that can raise
  \<^verbatim>\<open>KeyError\<close>, in the order the code makes them, then the formatted string.
\<close>

definition resolve_input ::
  "link_index \<Rightarrow> (string \<times> Operator) list \<Rightarrow> string \<Rightarrow> string \<Rightarrow> py_error + string" where
  "resolve_input idx ops op_idx in_idx =
     (case idx op_idx in_idx of
        None \<Rightarrow> Inl KeyError
      | Some (from_op, from_conn) \<Rightarrow>
          (case map_of ops from_op of
             None \<Rightarrow> Inl KeyError
           | Some src \<Rightarrow>
               (case map_of (op_outputs (op_properties src)) from_conn of
                  None \<Rightarrow> Inl KeyError
                | Some from_op_con_name \<Rightarrow>
                    Inr (op_name (op_properties src) @ ''.'' @
                         prop_name (io_properties from_op_con_name)))))"

text \<open>
  One round of the loop over the input connectors: \<^verbatim>\<open>inputs[in_name]\<close> is the string,
  or \<^verbatim>\<open>None\<close> under \<^verbatim>\<open>except KeyError\<close>.
\<close>

definition input_step ::
  "link_index \<Rightarrow> (string \<times> Operator) list \<Rightarrow> string \<Rightarrow> (string \<times> string option) list
     \<Rightarrow> string \<times> InputOutput \<Rightarrow> (string \<times> string option) list" where
  "input_step idx ops op_idx inputs item =
     (case item of (in_idx, in_data) \<Rightarrow>
        AList.update (prop_name (io_properties in_data))
          (case resolve_input idx ops op_idx in_idx of Inl e \<Rightarrow> None | Inr s \<Rightarrow> Some s)
          inputs)"

definition compile_inputs ::
  "link_index \<Rightarrow> (string \<times> Operator) list \<Rightarrow> string \<Rightarrow> (string \<times> InputOutput) list
     \<Rightarrow> (string \<times> string option) list" where
  "compile_inputs idx ops op_idx ins = foldl (input_step idx ops op_idx) [] ins"

text \<open>One round of the loop over \<^verbatim>\<open>_operators.items()\<close>: the task appended.\<close>

definition compile_operator ::
  "(py_value \<Rightarrow> py_value option) \<Rightarrow> link_index \<Rightarrow> (string \<times> Operator) list
     \<Rightarrow> string \<times> Operator \<Rightarrow> task_spec" where
  "compile_operator conv idx ops item =
     (case item of (op_idx, op_data) \<Rightarrow>
        \<lparr>t_name = op_name (op_properties op_data),
         t_module = op_module (op_properties op_data),
         t_params = compile_params conv (op_parameters op_data),
         t_inputs = compile_inputs idx ops op_idx (op_inputs (op_properties op_data))\<rparr>)"

text \<open>
  \<^verbatim>\<open>parse_to_list\<close>. \<^verbatim>\<open>_links.values()\<close> and \<^verbatim>\<open>_operators.items()\<close> raise an attribute
  error when the mapping is \<^verbatim>\<open>None\<close>; nothing catches it.
\<close>

definition parse_to_list ::
  "(py_value \<Rightarrow> py_value option) \<Rightarrow> WorkflowRequest \<Rightarrow> py_error + task_spec list" where
  "parse_to_list conv workflow =
     (case links workflow of
        None \<Rightarrow> Inl AttributeError
      | Some lks \<Rightarrow>
          (case operators workflow of
             None \<Rightarrow> Inl AttributeError
           | Some ops \<Rightarrow> Inr (map (compile_operator conv (build_links lks) ops) ops)))"

text \<open>
  The key under which a parameter, and an input connector, is stored in the task: its
  display name \<^verbatim>\<open>["properties"]["name"]\<close>, not its key in the operator's mapping.
\<close>

definition param_name :: "string \<times> OperatorParameters \<Rightarrow> string" where
  "param_name item = prop_name (par_properties (snd item))"

definition input_name :: "string \<times> InputOutput \<Rightarrow> string" where
  "input_name item = prop_name (io_properties (snd item))"

text \<open>
  The value stored for a parameter and for an input connector, by one round of the
  respective loop.
\<close>

definition param_value ::
  "(py_value \<Rightarrow> py_value option) \<Rightarrow> string \<times> OperatorParameters \<Rightarrow> py_value" where
  "param_value conv item = convert_param conv (pp_value (par_properties (snd item)))"

definition input_value ::
  "link_index \<Rightarrow> (string \<times> Operator) list \<Rightarrow> string \<Rightarrow> string \<times> InputOutput \<Rightarrow> string option" where
  "input_value idx ops op_idx item =
     (case resolve_input idx ops op_idx (fst item) of Inl e \<Rightarrow> None | Inr s \<Rightarrow> Some s)"

text \<open>
  The three ways the look-up of an input connector can fail, as the specification lists
  them: no link arrives at the connector; the link names a source operator that the
  workflow does not have; the source operator has no output connector of the id the
  link names.
\<close>

definition lookup_fails ::
  "link_index \<Rightarrow> (string \<times> Operator) list \<Rightarrow> string \<Rightarrow> string \<Rightarrow> bool" where
  "lookup_fails idx ops op_idx in_idx =
     (case idx op_idx in_idx of
        None \<Rightarrow> True
      | Some (from_op, from_conn) \<Rightarrow>
          (case map_of ops from_op of
             None \<Rightarrow> True
           | Some src \<Rightarrow> map_of (op_outputs (op_properties src)) from_conn = None))"

section \<open>The RDF exporter: the name of a task node\<close>

text \<open>
  Line 271 of \<^verbatim>\<open>parse_to_rdf\<close>:
  \<^verbatim>\<open>rdflib.URIRef(op_data["definition"]["uri"] + f"-{workflow_id}-{op_idx}")\<close>, from the
  operator's definition URI on.
\<close>

definition rdf_task_node :: "string \<Rightarrow> string \<Rightarrow> string \<Rightarrow> string" where
  "rdf_task_node uri workflow_id op_idx = uri @ ''-'' @ workflow_id @ ''-'' @ op_idx"

section \<open>The converter of parameter values\<close>

text \<open>
  Modelled from the spec: \<^verbatim>\<open>strconv.convert\<close>, the function of the third-party package
  \<^verbatim>\<open>strconv\<close> that \<^verbatim>\<open>parse_to_list\<close> calls; its source is not part of the repository.
  The specification says of it: "attempt best-effort type coercion of its value
  (recognize integers, floats, booleans, and fall back to string)". The model reads a
  string as a signed decimal integer, else as a signed decimal number with a point,
  else as \<^verbatim>\<open>true\<close> or \<^verbatim>\<open>false\<close> in any case, and hands back every other string, and
  every value that is not a string, as it came.
\<close>

definition is_digit :: "char \<Rightarrow> bool" where
  "is_digit c = (c \<in> set ''0123456789'')"

definition digit_val :: "char \<Rightarrow> nat" where
  "digit_val c =
     (case map_of (zip ''0123456789'' [0, 1, 2, 3, 4, 5, 6, 7, 8, 9]) c of
        None \<Rightarrow> 0
      | Some d \<Rightarrow> d)"

definition digits_val :: "string \<Rightarrow> nat" where
  "digits_val ds = foldl (\<lambda>n c. 10 * n + digit_val c) 0 ds"

fun strip_sign :: "string \<Rightarrow> bool \<times> string" where
  "strip_sign [] = (False, [])"
| "strip_sign (c # cs) =
     (if c = CHR ''-'' then (True, cs) else if c = CHR ''+'' then (False, cs) else (False, c # cs))"

definition convert_int :: "string \<Rightarrow> int option" where
  "convert_int s =
     (case strip_sign s of (neg, ds) \<Rightarrow>
        if ds \<noteq> [] \<and> list_all is_digit ds
        then Some (if neg then - int (digits_val ds) else int (digits_val ds))
        else None)"

definition convert_float :: "string \<Rightarrow> rat option" where
  "convert_float s =
     (case strip_sign s of (neg, body) \<Rightarrow>
        (case dropWhile is_digit body of
           [] \<Rightarrow> None
         | c # fp \<Rightarrow>
             if c = CHR ''.'' \<and> list_all is_digit fp \<and> (takeWhile is_digit body \<noteq> [] \<or> fp \<noteq> [])
             then let q = of_nat (digits_val (takeWhile is_digit body))
                          + of_nat (digits_val fp) / 10 ^ length fp
                  in Some (if neg then - q else q)
             else None))"

definition convert_bool :: "string \<Rightarrow> bool option" where
  "convert_bool s =
     (if upper s = ''TRUE'' then Some True else if upper s = ''FALSE'' then Some False else None)"

definition strconv_convert :: "py_value \<Rightarrow> py_value option" where
  "strconv_convert v =
     (case v of
        PStr s \<Rightarrow>
          (case convert_int s of
             Some i \<Rightarrow> Some (PInt i)
           | None \<Rightarrow>
               (case convert_float s of
                  Some f \<Rightarrow> Some (PFloat f)
                | None \<Rightarrow>
                    (case convert_bool s of
                       Some b \<Rightarrow> Some (PBool b)
                     | None \<Rightarrow> Some (PStr s))))
      | _ \<Rightarrow> Some v)"

section \<open>The workflow of the repository's test\<close>

text \<open>
  \<^verbatim>\<open>_workflow\<close> of \<^verbatim>\<open>tests/test_parse_workflow.py\<close>: two operators, the output of the
  first linked to the input of the second.
\<close>

definition demo_output :: InputOutput where
  "demo_output =
     \<lparr>io_properties = \<lparr>prop_name = ''DemoTaskOneOutput''\<rparr>,
      io_definition = Some \<lparr>def_uri = ''https://www.w3.org/#Data0''\<rparr>\<rparr>"

definition demo_input :: InputOutput where
  "demo_input =
     \<lparr>io_properties = \<lparr>prop_name = ''DemoTaskTwoInput''\<rparr>,
      io_definition = Some \<lparr>def_uri = ''https://www.w3.org/#Data0''\<rparr>\<rparr>"

definition demo_param_0 :: OperatorParameters where
  "demo_param_0 =
     \<lparr>par_properties = \<lparr>prop_name = ''param0'', pp_value = PInt 0, pp_defaultValue = PNone\<rparr>,
      par_definition = Some \<lparr>def_uri = ''https://www.w3.org/#Parameter0''\<rparr>\<rparr>"

definition demo_param_1 :: OperatorParameters where
  "demo_param_1 =
     \<lparr>par_properties = \<lparr>prop_name = ''param1'', pp_value = PStr ''one'', pp_defaultValue = PNone\<rparr>,
      par_definition = Some \<lparr>def_uri = ''https://www.w3.org/#Parameter1''\<rparr>\<rparr>"

definition demo_op_0 :: Operator where
  "demo_op_0 =
     \<lparr>op_properties =
        \<lparr>op_name = ''DemoTaskOne'', op_module = ''DemoTaskOneModule'',
         op_inputs = [], op_outputs = [(''out_0'', demo_output)]\<rparr>,
      op_parameters = [(''param_0'', demo_param_0), (''param_1'', demo_param_1)],
      op_definition = Some \<lparr>def_uri = ''https://www.w3.org/#Component0''\<rparr>\<rparr>"

definition demo_op_1 :: Operator where
  "demo_op_1 =
     \<lparr>op_properties =
        \<lparr>op_name = ''DemoTaskTwo'', op_module = ''DemoTaskTwoModule'',
         op_inputs = [(''in_0'', demo_input)], op_outputs = []\<rparr>,
      op_parameters = [],
      op_definition = Some \<lparr>def_uri = ''https://www.w3.org/#Component1''\<rparr>\<rparr>"

definition demo_link :: Link where
  "demo_link =
     \<lparr>fromOperator = ''op_0'', fromConnector = ''out_0'',
      toOperator = ''op_1'', toConnector = ''in_0''\<rparr>"

definition demo_workflow :: WorkflowRequest where
  "demo_workflow =
     \<lparr>operators = Some [(''op_0'', demo_op_0), (''op_1'', demo_op_1)],
      links = Some [(''0'', demo_link)]\<rparr>"

text \<open>
  Two variations used as concrete inputs below: an operator whose two parameters share
  the display name \<^verbatim>\<open>p\<close> and whose two input connectors share the display name \<^verbatim>\<open>x\<close>,
  and the test's workflow with its link redirected to an operator that does not exist.
\<close>

definition clash_op :: Operator where
  "clash_op =
     \<lparr>op_properties =
        \<lparr>op_name = ''Clash'', op_module = ''ClashModule'',
         op_inputs =
           [(''in_0'', \<lparr>io_properties = \<lparr>prop_name = ''x''\<rparr>, io_definition = None\<rparr>),
            (''in_1'', \<lparr>io_properties = \<lparr>prop_name = ''x''\<rparr>, io_definition = None\<rparr>)],
         op_outputs = []\<rparr>,
      op_parameters =
        [(''param_0'',
          \<lparr>par_properties = \<lparr>prop_name = ''p'', pp_value = PStr ''1'', pp_defaultValue = PNone\<rparr>,
           par_definition = None\<rparr>),
         (''param_1'',
          \<lparr>par_properties = \<lparr>prop_name = ''p'', pp_value = PStr ''2'', pp_defaultValue = PNone\<rparr>,
           par_definition = None\<rparr>)],
      op_definition = None\<rparr>"

definition dangling_workflow :: WorkflowRequest where
  "dangling_workflow =
     \<lparr>operators = Some [(''op_0'', demo_op_0), (''op_1'', demo_op_1)],
      links = Some [(''0'', demo_link\<lparr>fromOperator := ''op_9''\<rparr>)]\<rparr>"

definition unlinked_workflow :: WorkflowRequest where
  "unlinked_workflow =
     \<lparr>operators = Some [(''op_0'', demo_op_0), (''op_1'', demo_op_1)], links = Some []\<rparr>"

section \<open>Properties of the status aggregation\<close>

lemmas upper_defs = upper_char_def two_byte_upper_def ligature_upper_def





lemma upper_State_value: "upper (State_value st) = State_value st"
  by (cases st) (simp_all add: upper_defs)

lemma read_tasks_v3_well_formed:
  "list_all well_formed ts \<Longrightarrow> read_tasks_v3 ts = Inr (ts, map reported_status ts)"
  by (induction ts) (auto simp: well_formed_def reported_status_def)

lemma read_tasks_v3_malformed:
  "\<not> list_all well_formed ts \<Longrightarrow> \<exists>e. read_tasks_v3 ts = Inl e"
  by (induction ts) (auto simp: well_formed_def split: option.splits sum.splits)


lemma status_v3_malformed:
  assumes "\<not> list_all well_formed (resp_tasks r)"
  shows "status_v3 r = (None, STATUS_UNKNOWN)" and "fstatus_v3 r = (None, STATUS_UNKNOWN)"
proof -
  from assms obtain e where "read_tasks_v3 (resp_tasks r) = Inl e"
    using read_tasks_v3_malformed by blast
  then show "status_v3 r = (None, STATUS_UNKNOWN)" and "fstatus_v3 r = (None, STATUS_UNKNOWN)"
    by (simp_all add: status_v3_def fstatus_v3_def)
qed

text \<open>
  The loop of \<^verbatim>\<open>/fstatus\<close> in closed form: the workflows whose status equals
  \<^verbatim>\<open>with_status\<close> are counted, and the page cut out of them is returned.
\<close>

lemma take_drop_snoc:
  "take n (drop k (m @ [w]))
     = (if k \<le> length m \<and> length m - k < n then take n (drop k m) @ [w]
        else take n (drop k m))"
  by auto

lemma fstatus_loop_closed:
  "foldl (fstatus_step with_status page_size skips)
      \<lparr>fs_total_count = 0, fs_workflows_with_status = []\<rparr> reports
   = \<lparr>fs_total_count = length (filter (\<lambda>w. snd w = with_status) (map fstatus_v3 reports)),
      fs_workflows_with_status =
        take page_size (drop skips (filter (\<lambda>w. snd w = with_status) (map fstatus_v3 reports)))\<rparr>"
proof (induction reports rule: rev_induct)
  case Nil
  then show ?case by simp
next
  case (snoc r reports)
  show ?case
  proof (cases "snd (fstatus_v3 r) = with_status")
    case True
    then show ?thesis
      using snoc.IH by (auto simp: fstatus_step_def Let_def take_drop_snoc)
  next
    case False
    then show ?thesis
      using snoc.IH by (simp add: fstatus_step_def Let_def)
  qed
qed

lemma fstatus_route_v3_closed:
  "fstatus_route_v3 with_status page_size page_num reports =
     (let matching = filter (\<lambda>w. snd w = with_status) (map fstatus_v3 reports);
          page = take page_size (drop (page_size * (page_num - 1)) matching)
      in if page = [] then Inl HTTP_404 else Inr (page, length matching))"
  by (simp add: fstatus_route_v3_def fstatus_loop_closed Let_def)

lemma fstatus_route_v3_only_with_status:
  assumes "fstatus_route_v3 with_status page_size page_num reports = Inr (ws, n)"
  shows "list_all (\<lambda>w. snd w = with_status) ws"
proof -
  let ?m = "filter (\<lambda>w. snd w = with_status) (map fstatus_v3 reports)"
  from assms have "ws = take page_size (drop (page_size * (page_num - 1)) ?m)"
    by (simp add: fstatus_route_v3_closed Let_def split: if_splits)
  then have "set ws \<subseteq> set ?m"
    by (metis set_drop_subset set_take_subset subset_trans)
  then show ?thesis by (auto simp: list_all_iff)
qed





lemmas status_chain_defs =
  global_status_v3_def global_fstatus_v3_def global_status_v2_def check_def py_all_def py_any_def

lemma v3_revoked_first:
  "global_status_v3 True sts = STATUS_REVOKED \<and> global_fstatus_v3 True sts = STATUS_REVOKED"
  by (simp add: global_status_v3_def global_fstatus_v3_def)

lemma v2_never_revoked: "global_status_v2 sts \<noteq> STATUS_REVOKED"
  by (simp add: global_status_v2_def)

lemma status_v2_never_revoked: "status_v2 r \<noteq> Inr (ts, STATUS_REVOKED)"
  by (auto simp: status_v2_def v2_never_revoked split: sum.splits if_splits)

text \<open>
  C2. A report with \<^verbatim>\<open>is_revoked=true\<close> is to give REVOKED at every call site. On the
  revoked report whose single task is complete (name, status DONE, params and inputs
  given), \<^verbatim>\<open>/status\<close> of version 2 answers DONE, where \<^verbatim>\<open>/status\<close> and \<^verbatim>\<open>/fstatus\<close> of
  version 3 derive REVOKED. Version 2 never answers REVOKED
  (\<open>status_v2_never_revoked\<close>).
\<close>

theorem C2_v2_status_ignores_is_revoked:
  "status_v2
      \<lparr>resp_tasks = [\<lparr>tr_name = Some ''t'', tr_status = Some ''DONE'', tr_params = Dict, tr_inputs = Dict\<rparr>],
       resp_is_revoked = Some True\<rparr>
     = Inr ([\<lparr>tr_name = Some ''t'', tr_status = Some ''DONE'', tr_params = Dict, tr_inputs = Dict\<rparr>],
            STATUS_DONE) \<and>
   status_v3
      \<lparr>resp_tasks = [\<lparr>tr_name = Some ''t'', tr_status = Some ''DONE'', tr_params = Dict, tr_inputs = Dict\<rparr>],
       resp_is_revoked = Some True\<rparr>
     = (Some [\<lparr>tr_name = Some ''t'', tr_status = Some ''DONE'', tr_params = Dict, tr_inputs = Dict\<rparr>],
        STATUS_REVOKED) \<and>
   fstatus_v3
      \<lparr>resp_tasks = [\<lparr>tr_name = Some ''t'', tr_status = Some ''DONE'', tr_params = Dict, tr_inputs = Dict\<rparr>],
       resp_is_revoked = Some True\<rparr>
     = (Some [\<lparr>tr_name = Some ''t'', tr_status = Some ''DONE'', tr_params = Dict, tr_inputs = Dict\<rparr>],
        STATUS_REVOKED)"
  by (simp add: status_v2_def status_v3_def fstatus_v3_def task_dict_v2_def get_field_def
      Task_valid_def State_members_def truthy_def upper_defs status_chain_defs)

text \<open>
  C3, as claimed: an empty task list with the revoked flag not set gives UNKNOWN. It
  does not: \<^verbatim>\<open>all([])\<close> is true, so the first rule after the revoked test fires.
\<close>

theorem C3_empty_counterexample:
  "snd (status_v3 \<lparr>resp_tasks = [], resp_is_revoked = None\<rparr>) \<noteq> STATUS_UNKNOWN"
  by (simp add: status_v3_def truthy_def status_chain_defs)

text \<open>
  C3, amended. For an empty task list with the revoked flag absent or false, every
  status route (\<^verbatim>\<open>/status\<close> and \<^verbatim>\<open>/fstatus\<close> of version 3, \<^verbatim>\<open>/status\<close> of version 2)
  derives DONE, and returns the empty task list.
\<close>

theorem C3_empty_is_done:
  "status_v3 \<lparr>resp_tasks = [], resp_is_revoked = None\<rparr> = (Some [], STATUS_DONE) \<and>
   status_v3 \<lparr>resp_tasks = [], resp_is_revoked = Some False\<rparr> = (Some [], STATUS_DONE) \<and>
   fstatus_v3 \<lparr>resp_tasks = [], resp_is_revoked = None\<rparr> = (Some [], STATUS_DONE) \<and>
   fstatus_v3 \<lparr>resp_tasks = [], resp_is_revoked = Some False\<rparr> = (Some [], STATUS_DONE) \<and>
   status_v2 \<lparr>resp_tasks = [], resp_is_revoked = None\<rparr> = Inr ([], STATUS_DONE) \<and>
   status_v2 \<lparr>resp_tasks = [], resp_is_revoked = Some False\<rparr> = Inr ([], STATUS_DONE)"
  by (simp add: status_v3_def fstatus_v3_def status_v2_def truthy_def status_chain_defs)

text \<open>
  C4, as claimed: the states PENDING, RUNNING with the revoked flag not set give
  RUNNING. Under the chain of version 3 they do not.
\<close>

theorem C4_pending_running_counterexample:
  "global_status_v3 False [''PENDING'', ''RUNNING''] \<noteq> STATUS_RUNNING"
  by (simp add: status_chain_defs)

text \<open>
  C4, amended. For the states PENDING, RUNNING with the revoked flag not set, both
  routes of version 3 derive PENDING (the rule "any pending and none failed" comes
  before the rule for RUNNING); only the route of version 2, which asks whether every
  task is pending or running, derives RUNNING.
\<close>

theorem C4_pending_running:
  "global_status_v3 False [''PENDING'', ''RUNNING''] = STATUS_PENDING \<and>
   global_fstatus_v3 False [''PENDING'', ''RUNNING''] = STATUS_PENDING \<and>
   global_status_v2 [''PENDING'', ''RUNNING''] = STATUS_RUNNING"
  by (simp add: status_chain_defs)

text \<open>
  C5, as claimed: a malformed entry is skipped and the remaining entries are
  aggregated. Here the first entry has no status and the second is done: skipping
  would leave one done task, hence DONE with that task listed; version 3 returns no
  tasks and UNKNOWN, and version 2 raises.
\<close>

theorem C5_not_skipped_counterexample:
  "status_v3
      \<lparr>resp_tasks = [\<lparr>tr_name = Some ''a'', tr_status = None, tr_params = Dict, tr_inputs = Dict\<rparr>,
                     \<lparr>tr_name = Some ''b'', tr_status = Some ''DONE'', tr_params = Dict, tr_inputs = Dict\<rparr>],
       resp_is_revoked = None\<rparr> = (None, STATUS_UNKNOWN) \<and>
   status_v3
      \<lparr>resp_tasks = [\<lparr>tr_name = Some ''b'', tr_status = Some ''DONE'', tr_params = Dict, tr_inputs = Dict\<rparr>],
       resp_is_revoked = None\<rparr>
     = (Some [\<lparr>tr_name = Some ''b'', tr_status = Some ''DONE'', tr_params = Dict, tr_inputs = Dict\<rparr>],
        STATUS_DONE) \<and>
   status_v2
      \<lparr>resp_tasks = [\<lparr>tr_name = Some ''a'', tr_status = None, tr_params = Dict, tr_inputs = Dict\<rparr>,
                     \<lparr>tr_name = Some ''b'', tr_status = Some ''DONE'', tr_params = Dict, tr_inputs = Dict\<rparr>],
       resp_is_revoked = None\<rparr> = Inl AttributeError"
  by (simp add: status_v3_def status_v2_def Task_valid_def State_members_def truthy_def
      upper_defs status_chain_defs)

text \<open>
  C5, amended. In version 3 no exception leaves the aggregation of a workflow, and no
  entry is skipped. When every entry is well formed, all of them are kept and the
  state is the chain applied to their upper-cased statuses. As soon as one entry is
  malformed (no name, no status, a status that is not a member of \<^verbatim>\<open>State\<close>, or null
  params or inputs) the whole aggregation is given up and the workflow has no tasks and
  the state UNKNOWN, whatever the other entries and the revoked flag say. \<^verbatim>\<open>/status\<close>
  returns the workflow so. \<^verbatim>\<open>/fstatus\<close> returns only workflows whose state equals
  \<^verbatim>\<open>with_status\<close>: it returns that workflow when \<^verbatim>\<open>with_status\<close> is UNKNOWN; under any
  other value, the default DONE among them, it leaves the workflow out, and answers 404
  when it was the only one.
\<close>

theorem C5_v3_all_or_nothing:
  "(list_all well_formed (resp_tasks r) \<longrightarrow>
      status_v3 r =
        (Some (resp_tasks r),
         global_status_v3 (truthy (resp_is_revoked r)) (map reported_status (resp_tasks r))) \<and>
      fstatus_v3 r =
        (Some (resp_tasks r),
         global_fstatus_v3 (truthy (resp_is_revoked r)) (map reported_status (resp_tasks r)))) \<and>
   (\<not> list_all well_formed (resp_tasks r) \<longrightarrow>
      status_v3 r = (None, STATUS_UNKNOWN) \<and> fstatus_v3 r = (None, STATUS_UNKNOWN) \<and>
      status_route_v3 (before @ r # after)
        = Inr (map status_v3 before @ (None, STATUS_UNKNOWN) # map status_v3 after) \<and>
      (0 < page_size \<longrightarrow>
         fstatus_route_v3 with_status page_size 1 [r]
           = (if with_status = STATUS_UNKNOWN then Inr ([(None, STATUS_UNKNOWN)], 1)
              else Inl HTTP_404))) \<and>
   (\<forall>ws n. fstatus_route_v3 with_status page_size page_num reports = Inr (ws, n) \<longrightarrow>
      list_all (\<lambda>w. snd w = with_status) ws)"
proof (intro conjI impI allI)
  assume wf: "list_all well_formed (resp_tasks r)"
  then show "status_v3 r =
        (Some (resp_tasks r),
         global_status_v3 (truthy (resp_is_revoked r)) (map reported_status (resp_tasks r)))"
    by (simp add: status_v3_def read_tasks_v3_well_formed)
  from wf show "fstatus_v3 r =
        (Some (resp_tasks r),
         global_fstatus_v3 (truthy (resp_is_revoked r)) (map reported_status (resp_tasks r)))"
    by (simp add: fstatus_v3_def read_tasks_v3_well_formed)
next
  assume mal: "\<not> list_all well_formed (resp_tasks r)"
  show a: "status_v3 r = (None, STATUS_UNKNOWN)" using mal by (rule status_v3_malformed)
  show b: "fstatus_v3 r = (None, STATUS_UNKNOWN)" using mal by (rule status_v3_malformed)
  show "status_route_v3 (before @ r # after)
        = Inr (map status_v3 before @ (None, STATUS_UNKNOWN) # map status_v3 after)"
    by (simp add: status_route_v3_def a)
  show "fstatus_route_v3 with_status page_size 1 [r]
           = (if with_status = STATUS_UNKNOWN then Inr ([(None, STATUS_UNKNOWN)], 1)
              else Inl HTTP_404)" if "0 < page_size"
    using that by (auto simp: fstatus_route_v3_closed b Let_def)
next
  fix ws n
  assume "fstatus_route_v3 with_status page_size page_num reports = Inr (ws, n)"
  then show "list_all (\<lambda>w. snd w = with_status) ws"
    by (rule fstatus_route_v3_only_with_status)
qed

theorem C5_v3_all_or_nothing_witness:
  "status_route_v3
      [\<lparr>resp_tasks = [\<lparr>tr_name = Some ''a'', tr_status = Some ''FAILED'', tr_params = Dict, tr_inputs = Dict\<rparr>,
                      \<lparr>tr_name = Some ''b'', tr_status = Some ''paused'', tr_params = Dict, tr_inputs = Dict\<rparr>],
        resp_is_revoked = Some True\<rparr>]
     = Inr [(None, STATUS_UNKNOWN)] \<and>
   fstatus_route_v3 STATUS_DONE 1 1
      [\<lparr>resp_tasks = [\<lparr>tr_name = Some ''a'', tr_status = Some ''FAILED'', tr_params = Dict, tr_inputs = Dict\<rparr>,
                      \<lparr>tr_name = Some ''b'', tr_status = Some ''paused'', tr_params = Dict, tr_inputs = Dict\<rparr>],
        resp_is_revoked = Some True\<rparr>]
     = Inl HTTP_404 \<and>
   fstatus_v3
      \<lparr>resp_tasks = [\<lparr>tr_name = Some ''a'', tr_status = Some ''RUNNING'', tr_params = Dict, tr_inputs = Dict\<rparr>,
                     \<lparr>tr_name = Some ''b'', tr_status = Some ''DONE'', tr_params = Dict, tr_inputs = Dict\<rparr>],
       resp_is_revoked = None\<rparr>
     = (Some [\<lparr>tr_name = Some ''a'', tr_status = Some ''RUNNING'', tr_params = Dict, tr_inputs = Dict\<rparr>,
              \<lparr>tr_name = Some ''b'', tr_status = Some ''DONE'', tr_params = Dict, tr_inputs = Dict\<rparr>],
        STATUS_RUNNING)"
proof -
  let ?bad = "\<lparr>resp_tasks = [\<lparr>tr_name = Some ''a'', tr_status = Some ''FAILED'', tr_params = Dict, tr_inputs = Dict\<rparr>,
                      \<lparr>tr_name = Some ''b'', tr_status = Some ''paused'', tr_params = Dict, tr_inputs = Dict\<rparr>],
        resp_is_revoked = Some True\<rparr>"
  let ?good = "\<lparr>resp_tasks = [\<lparr>tr_name = Some ''a'', tr_status = Some ''RUNNING'', tr_params = Dict, tr_inputs = Dict\<rparr>,
                     \<lparr>tr_name = Some ''b'', tr_status = Some ''DONE'', tr_params = Dict, tr_inputs = Dict\<rparr>],
       resp_is_revoked = None\<rparr>"
  have mal: "\<not> list_all well_formed (resp_tasks ?bad)"
    by (simp add: well_formed_def Task_valid_def State_members_def)
  have wf: "list_all well_formed (resp_tasks ?good)"
    by (simp add: well_formed_def Task_valid_def State_members_def)
  have st: "global_fstatus_v3 (truthy (resp_is_revoked ?good)) (map reported_status (resp_tasks ?good))
      = STATUS_RUNNING"
    by (simp add: truthy_def reported_status_def upper_defs status_chain_defs)
  from C5_v3_all_or_nothing [of ?bad "[]" "[]" 1 STATUS_DONE 1 "[]"] mal
  have a: "status_route_v3 [?bad] = Inr [(None, STATUS_UNKNOWN)]"
    and b: "fstatus_route_v3 STATUS_DONE 1 1 [?bad] = Inl HTTP_404"
    by simp_all
  from C5_v3_all_or_nothing [of ?good "[]" "[]" 1 STATUS_DONE 1 "[]"] wf st
  have c: "fstatus_v3 ?good = (Some (resp_tasks ?good), STATUS_RUNNING)"
    by simp
  from a b c show ?thesis by simp
qed

section \<open>Properties of the task compiler\<close>

text \<open>
  A dictionary filled by assignments in a loop: which keys it ends with, that they are
  distinct, where its values come from, and that the last assignment to a key wins.
\<close>

lemma update_set_cases:
  "(a, b) \<in> set (AList.update k v al) \<Longrightarrow> (a, b) = (k, v) \<or> (a, b) \<in> set al"
  by (induction al) (auto split: if_splits)

lemma foldl_update_other:
  "k \<notin> key ` set items \<Longrightarrow>
   map_of (foldl (\<lambda>d x. AList.update (key x) (val x) d) d0 items) k = map_of d0 k"
  by (induction items arbitrary: d0) (auto simp: update_conv')

lemma foldl_update_keys:
  "fst ` set (foldl (\<lambda>d x. AList.update (key x) (val x) d) d0 items)
     = fst ` set d0 \<union> key ` set items"
  by (induction items arbitrary: d0) (auto simp: dom_update)

lemma foldl_update_distinct:
  "distinct (map fst d0) \<Longrightarrow>
   distinct (map fst (foldl (\<lambda>d x. AList.update (key x) (val x) d) d0 items))"
  by (induction items arbitrary: d0) (auto simp: distinct_update)


lemma foldl_update_values:
  "(a, b) \<in> set (foldl (\<lambda>d x. AList.update (key x) (val x) d) d0 items) \<Longrightarrow>
   (a, b) \<in> set d0 \<or> (\<exists>x \<in> set items. a = key x \<and> b = val x)"
proof (induction items arbitrary: d0)
  case Nil
  then show ?case by simp
next
  case (Cons x items)
  from Cons.prems have "(a, b) \<in> set (foldl (\<lambda>d x. AList.update (key x) (val x) d)
      (AList.update (key x) (val x) d0) items)" by simp
  from Cons.IH [OF this]
  show ?case
  proof
    assume "(a, b) \<in> set (AList.update (key x) (val x) d0)"
    from update_set_cases [OF this] show ?thesis by auto
  next
    assume "\<exists>x \<in> set items. a = key x \<and> b = val x"
    then show ?thesis by auto
  qed
qed

lemma foldl_update_length:
  "length (foldl (\<lambda>d x. AList.update (key x) (val x) d) [] items) = card (key ` set items)"
proof -
  let ?r = "foldl (\<lambda>d x. AList.update (key x) (val x) d) [] items"
  have "distinct (map fst ?r)" by (rule foldl_update_distinct) simp
  then have "card (set (map fst ?r)) = length (map fst ?r)"
    by (rule distinct_card)
  moreover have "set (map fst ?r) = key ` set items"
    using foldl_update_keys [of key val "[]" items] by simp
  ultimately show ?thesis by simp
qed

lemma foldl_update_split:
  assumes "key x \<notin> key ` set post"
  shows "map_of (foldl (\<lambda>d x. AList.update (key x) (val x) d) [] (pre @ x # post)) (key x)
           = Some (val x)"
  using assms by (simp add: foldl_update_other update_conv')


lemma param_step_eq:
  "param_step conv = (\<lambda>d x. AList.update (param_name x) (param_value conv x) d)"
  by (rule ext, rule ext) (simp add: param_step_def param_name_def param_value_def case_prod_beta)

lemma input_step_eq:
  "input_step idx ops op_idx = (\<lambda>d x. AList.update (input_name x) (input_value idx ops op_idx x) d)"
  by (rule ext, rule ext) (simp add: input_step_def input_name_def input_value_def case_prod_beta)

lemma compile_params_last:
  "map_of (compile_params conv (pre @ [x])) (param_name x) = Some (param_value conv x)"
  by (simp add: compile_params_def param_step_eq update_conv')

lemma compile_params_final:
  "param_name x \<notin> param_name ` set post \<Longrightarrow>
   map_of (compile_params conv (pre @ x # post)) (param_name x) = Some (param_value conv x)"
  unfolding compile_params_def param_step_eq by (rule foldl_update_split)

lemma compile_inputs_last:
  "map_of (compile_inputs idx ops op_idx (pre @ [x])) (input_name x)
     = Some (input_value idx ops op_idx x)"
  by (simp add: compile_inputs_def input_step_eq update_conv')

lemma compile_inputs_final:
  "input_name x \<notin> input_name ` set post \<Longrightarrow>
   map_of (compile_inputs idx ops op_idx (pre @ x # post)) (input_name x)
     = Some (input_value idx ops op_idx x)"
  unfolding compile_inputs_def input_step_eq by (rule foldl_update_split)

lemma input_value_fails:
  "lookup_fails idx ops op_idx in_idx \<Longrightarrow> input_value idx ops op_idx (in_idx, in_data) = None"
  by (cases "idx op_idx in_idx")
     (auto simp: lookup_fails_def input_value_def resolve_input_def split: option.splits)

lemma input_value_resolved:
  "idx op_idx in_idx = Some (from_op, from_conn) \<Longrightarrow> map_of ops from_op = Some src \<Longrightarrow>
   map_of (op_outputs (op_properties src)) from_conn = Some out_data \<Longrightarrow>
   input_value idx ops op_idx (in_idx, in_data)
     = Some (op_name (op_properties src) @ ''.'' @ prop_name (io_properties out_data))"
  by (simp add: input_value_def resolve_input_def)

lemma build_links_empty: "build_links [] = (\<lambda>_. Map.empty)"
  by (simp add: build_links_def)

lemma no_links_all_null:
  assumes "(k, v) \<in> set (compile_inputs (\<lambda>_. Map.empty) ops op_idx ins)"
  shows "v = None"
proof -
  from assms have "(k, v) \<in> set [] \<or>
      (\<exists>x \<in> set ins. k = input_name x \<and> v = input_value (\<lambda>_. Map.empty) ops op_idx x)"
    unfolding compile_inputs_def input_step_eq by (rule foldl_update_values)
  then show ?thesis
    by (auto simp: input_value_def resolve_input_def)
qed

lemma parse_to_list_total:
  "links w = Some lks \<Longrightarrow> operators w = Some ops \<Longrightarrow>
   parse_to_list conv w = Inr (map (compile_operator conv (build_links lks) ops) ops)"
  by (simp add: parse_to_list_def)

lemma compile_operator_fields:
  "t_name (compile_operator conv idx ops (op_idx, op_data)) = op_name (op_properties op_data)"
  "t_module (compile_operator conv idx ops (op_idx, op_data)) = op_module (op_properties op_data)"
  "t_params (compile_operator conv idx ops (op_idx, op_data))
     = compile_params conv (op_parameters op_data)"
  "t_inputs (compile_operator conv idx ops (op_idx, op_data))
     = compile_inputs idx ops op_idx (op_inputs (op_properties op_data))"
  by (simp_all add: compile_operator_def)

lemma foldl_add_link_other:
  "\<forall>l \<in> set ls. (toOperator l, toConnector l) \<noteq> (a, b) \<Longrightarrow>
   foldl add_link idx ls a b = idx a b"
  by (induction ls arbitrary: idx) (auto simp: add_link_def)

lemma build_links_last_wins:
  assumes "lks = pre @ (k, l) # post"
    and "\<forall>l' \<in> set (map snd post). (toOperator l', toConnector l') \<noteq> (toOperator l, toConnector l)"
  shows "build_links lks (toOperator l) (toConnector l) = Some (fromOperator l, fromConnector l)"
  using assms by (simp add: build_links_def foldl_add_link_other add_link_def)

text \<open>
  C6. Take an operator of the workflow and one of its input connectors. If the link
  index has an entry for the pair of the operator's key and the connector's key, and
  the source operator and its output connector that the entry names exist, then the
  round of the loop for that connector stores, under the connector's display name, the
  string made of the source operator's display name, a dot, and the output connector's
  display name; and the compilation succeeds, with that string in the emitted task of
  the operator unless a later input connector of the same operator has the same
  display name.
\<close>

theorem C6_linked_input_named:
  assumes lk: "links w = Some lks" and op: "operators w = Some ops"
    and i: "i < length ops" and at: "ops ! i = (op_idx, op_data)"
    and ins: "op_inputs (op_properties op_data) = pre @ (in_idx, in_data) # post"
    and entry: "build_links lks op_idx in_idx = Some (from_op, from_conn)"
    and src: "map_of ops from_op = Some src"
    and out: "map_of (op_outputs (op_properties src)) from_conn = Some out_data"
  shows
    "map_of (compile_inputs (build_links lks) ops op_idx (pre @ [(in_idx, in_data)]))
        (prop_name (io_properties in_data))
       = Some (Some (op_name (op_properties src) @ ''.'' @ prop_name (io_properties out_data))) \<and>
     (\<exists>tasks. parse_to_list conv w = Inr tasks \<and> length tasks = length ops \<and>
        (prop_name (io_properties in_data) \<notin> input_name ` set post \<longrightarrow>
           map_of (t_inputs (tasks ! i)) (prop_name (io_properties in_data))
             = Some (Some (op_name (op_properties src) @ ''.'' @
                           prop_name (io_properties out_data)))))"
proof -
  let ?idx = "build_links lks"
  let ?x = "(in_idx, in_data)"
  let ?s = "op_name (op_properties src) @ ''.'' @ prop_name (io_properties out_data)"
  have nm: "input_name ?x = prop_name (io_properties in_data)"
    by (simp add: input_name_def)
  have val: "input_value ?idx ops op_idx ?x = Some ?s"
    using entry src out by (rule input_value_resolved)
  have rec: "map_of (compile_inputs ?idx ops op_idx (pre @ [?x])) (prop_name (io_properties in_data))
      = Some (Some ?s)"
    using compile_inputs_last [of ?idx ops op_idx pre ?x] by (simp add: nm val)
  let ?tasks = "map (compile_operator conv ?idx ops) ops"
  have run: "parse_to_list conv w = Inr ?tasks"
    using lk op by (rule parse_to_list_total)
  have ti: "t_inputs (?tasks ! i) = compile_inputs ?idx ops op_idx (pre @ ?x # post)"
    using i at ins by (simp add: compile_operator_fields)
  have fin: "prop_name (io_properties in_data) \<notin> input_name ` set post \<Longrightarrow>
      map_of (t_inputs (?tasks ! i)) (prop_name (io_properties in_data)) = Some (Some ?s)"
    using compile_inputs_final [of ?x post ?idx ops op_idx pre] by (simp add: nm val ti)
  from rec run fin show ?thesis by simp
qed

lemmas demo_defs = demo_workflow_def demo_op_0_def demo_op_1_def demo_link_def
  demo_input_def demo_output_def demo_param_0_def demo_param_1_def

lemmas compile_defs = parse_to_list_def compile_operator_def compile_params_def compile_inputs_def
  param_step_def input_step_def resolve_input_def build_links_def add_link_def convert_param_def

lemmas strconv_defs = strconv_convert_def convert_int_def convert_float_def convert_bool_def
  is_digit_def digit_val_def digits_val_def upper_char_def two_byte_upper_def
  ligature_upper_def

theorem C6_linked_input_named_witness:
  "map_of (compile_inputs (build_links [(''0'', demo_link)])
             [(''op_0'', demo_op_0), (''op_1'', demo_op_1)] ''op_1'' ([] @ [(''in_0'', demo_input)]))
      (prop_name (io_properties demo_input))
     = Some (Some ''DemoTaskOne.DemoTaskOneOutput'') \<and>
   (\<exists>tasks. parse_to_list strconv_convert demo_workflow = Inr tasks \<and> length tasks = 2 \<and>
      map_of (t_inputs (tasks ! 1)) ''DemoTaskTwoInput'' = Some (Some ''DemoTaskOne.DemoTaskOneOutput''))"
proof -
  let ?ops = "[(''op_0'', demo_op_0), (''op_1'', demo_op_1)]"
  have h1: "links demo_workflow = Some [(''0'', demo_link)]" by (simp add: demo_workflow_def)
  have h2: "operators demo_workflow = Some ?ops" by (simp add: demo_workflow_def)
  have h3: "1 < length ?ops" by simp
  have h4: "?ops ! 1 = (''op_1'', demo_op_1)" by simp
  have h5: "op_inputs (op_properties demo_op_1) = [] @ (''in_0'', demo_input) # []"
    by (simp add: demo_op_1_def)
  have h6: "build_links [(''0'', demo_link)] ''op_1'' ''in_0'' = Some (''op_0'', ''out_0'')"
    by (simp add: build_links_def add_link_def demo_link_def)
  have h7: "map_of ?ops ''op_0'' = Some demo_op_0" by simp
  have h8: "map_of (op_outputs (op_properties demo_op_0)) ''out_0'' = Some demo_output"
    by (simp add: demo_op_0_def)
  have nm: "prop_name (io_properties demo_input) = ''DemoTaskTwoInput''"
    by (simp add: demo_input_def)
  have s: "op_name (op_properties demo_op_0) @ ''.'' @ prop_name (io_properties demo_output)
      = ''DemoTaskOne.DemoTaskOneOutput''"
    by (simp add: demo_op_0_def demo_output_def)
  from C6_linked_input_named [OF h1 h2 h3 h4 h5 h6 h7 h8, of strconv_convert]
  obtain tasks where
    a: "map_of (compile_inputs (build_links [(''0'', demo_link)]) ?ops ''op_1''
          ([] @ [(''in_0'', demo_input)])) (prop_name (io_properties demo_input))
        = Some (Some ''DemoTaskOne.DemoTaskOneOutput'')"
    and b: "parse_to_list strconv_convert demo_workflow = Inr tasks"
    and c: "length tasks = length ?ops"
    and d: "map_of (t_inputs (tasks ! 1)) ''DemoTaskTwoInput''
        = Some (Some ''DemoTaskOne.DemoTaskOneOutput'')"
    unfolding nm s by auto
  from c have c': "length tasks = 2" by simp
  from a b c' d show ?thesis by blast
qed

text \<open>
  The expectation of \<^verbatim>\<open>test_parsed_to_json\<close>, reproduced by the model.
\<close>

lemma demo_compiles:
  "parse_to_list strconv_convert demo_workflow =
   Inr [\<lparr>t_name = ''DemoTaskOne'', t_module = ''DemoTaskOneModule'',
         t_params = [(''param0'', PInt 0), (''param1'', PStr ''one'')], t_inputs = []\<rparr>,
        \<lparr>t_name = ''DemoTaskTwo'', t_module = ''DemoTaskTwoModule'',
         t_params = [],
         t_inputs = [(''DemoTaskTwoInput'', Some ''DemoTaskOne.DemoTaskOneOutput'')]\<rparr>]"
  by (simp add: demo_defs compile_defs strconv_defs)

lemma parse_to_list_none:
  "links w = None \<or> operators w = None \<Longrightarrow> parse_to_list conv w = Inl AttributeError"
  by (auto simp: parse_to_list_def split: option.splits)

text \<open>
  C7, as claimed: every workflow compiles, one task per operator; in particular one
  with N operators and no links. A workflow with one operator whose \<^verbatim>\<open>links\<close> is
  \<^verbatim>\<open>None\<close>, which is the default of \<^verbatim>\<open>WorkflowRequest\<close> for a document without that
  key, does not compile: \<^verbatim>\<open>_links.values()\<close> raises an attribute error.
\<close>

theorem C7_links_none_counterexample:
  "parse_to_list strconv_convert \<lparr>operators = Some [(''op_0'', demo_op_0)], links = None\<rparr>
     = Inl AttributeError"
  by (simp add: parse_to_list_def)

text \<open>
  C7, amended. When the workflow has its two mappings (neither \<^verbatim>\<open>operators\<close> nor
  \<^verbatim>\<open>links\<close> is \<^verbatim>\<open>None\<close>), the compilation returns a list (it raises nothing), with one
  task per operator, in the operators' order and under their names. For every input
  connector whose look-up fails (no link arrives at it, the link's source operator is
  missing, or the source operator lacks the output the link names) the round of the
  loop stores \<^verbatim>\<open>None\<close> under the connector's display name, and the emitted task holds
  it unless a later input connector of the operator has the same display name. With an
  empty \<^verbatim>\<open>links\<close> mapping, every input of every task is \<^verbatim>\<open>None\<close>.
\<close>

theorem C7_unresolved_inputs_are_null:
  assumes lk: "links w = Some lks" and op: "operators w = Some ops"
  shows
    "\<exists>tasks. parse_to_list conv w = Inr tasks \<and> length tasks = length ops \<and>
       map t_name tasks = map (\<lambda>item. op_name (op_properties (snd item))) ops \<and>
       (\<forall>i pre in_idx in_data post.
          i < length ops \<and>
          op_inputs (op_properties (snd (ops ! i))) = pre @ (in_idx, in_data) # post \<and>
          lookup_fails (build_links lks) ops (fst (ops ! i)) in_idx \<longrightarrow>
            map_of (compile_inputs (build_links lks) ops (fst (ops ! i)) (pre @ [(in_idx, in_data)]))
              (prop_name (io_properties in_data)) = Some None \<and>
            (prop_name (io_properties in_data) \<notin> input_name ` set post \<longrightarrow>
               map_of (t_inputs (tasks ! i)) (prop_name (io_properties in_data)) = Some None)) \<and>
       (lks = [] \<longrightarrow> (\<forall>t \<in> set tasks. \<forall>kv \<in> set (t_inputs t). snd kv = None))"
proof -
  let ?idx = "build_links lks"
  let ?tasks = "map (compile_operator conv ?idx ops) ops"
  have run: "parse_to_list conv w = Inr ?tasks"
    using lk op by (rule parse_to_list_total)
  have names: "map t_name ?tasks = map (\<lambda>item. op_name (op_properties (snd item))) ops"
    by (simp add: compile_operator_def case_prod_beta)
  have unresolved: "map_of (compile_inputs ?idx ops (fst (ops ! i)) (pre @ [(in_idx, in_data)]))
              (prop_name (io_properties in_data)) = Some None \<and>
            (prop_name (io_properties in_data) \<notin> input_name ` set post \<longrightarrow>
               map_of (t_inputs (?tasks ! i)) (prop_name (io_properties in_data)) = Some None)"
    if i: "i < length ops"
      and ins: "op_inputs (op_properties (snd (ops ! i))) = pre @ (in_idx, in_data) # post"
      and fails: "lookup_fails ?idx ops (fst (ops ! i)) in_idx"
    for i pre in_idx in_data post
  proof -
    let ?x = "(in_idx, in_data)"
    have nm: "input_name ?x = prop_name (io_properties in_data)"
      by (simp add: input_name_def)
    have val: "input_value ?idx ops (fst (ops ! i)) ?x = None"
      using fails by (rule input_value_fails)
    have rec: "map_of (compile_inputs ?idx ops (fst (ops ! i)) (pre @ [?x]))
        (prop_name (io_properties in_data)) = Some None"
      using compile_inputs_last [of ?idx ops "fst (ops ! i)" pre ?x] by (simp add: nm val)
    have ti: "t_inputs (?tasks ! i) = compile_inputs ?idx ops (fst (ops ! i)) (pre @ ?x # post)"
      using i ins by (simp add: compile_operator_def case_prod_beta)
    have fin: "prop_name (io_properties in_data) \<notin> input_name ` set post \<Longrightarrow>
        map_of (t_inputs (?tasks ! i)) (prop_name (io_properties in_data)) = Some None"
      using compile_inputs_final [of ?x post ?idx ops "fst (ops ! i)" pre] by (simp add: nm val ti)
    from rec fin show ?thesis by simp
  qed
  have nolinks: "\<forall>t \<in> set ?tasks. \<forall>kv \<in> set (t_inputs t). snd kv = None" if "lks = []"
  proof (intro ballI)
    fix t kv
    assume t: "t \<in> set ?tasks" and kv: "kv \<in> set (t_inputs t)"
    from t obtain item where "item \<in> set ops" and "t = compile_operator conv ?idx ops item"
      by auto
    then have "t_inputs t =
        compile_inputs (\<lambda>_. Map.empty) ops (fst item) (op_inputs (op_properties (snd item)))"
      using that by (simp add: compile_operator_def case_prod_beta build_links_empty)
    with kv have "(fst kv, snd kv) \<in>
        set (compile_inputs (\<lambda>_. Map.empty) ops (fst item) (op_inputs (op_properties (snd item))))"
      by simp
    then show "snd kv = None" by (rule no_links_all_null)
  qed
  show ?thesis
  proof (intro exI [of _ ?tasks] conjI)
    show "parse_to_list conv w = Inr ?tasks" by (rule run)
    show "length ?tasks = length ops" by simp
    show "map t_name ?tasks = map (\<lambda>item. op_name (op_properties (snd item))) ops"
      by (rule names)
    show "\<forall>i pre in_idx in_data post.
          i < length ops \<and>
          op_inputs (op_properties (snd (ops ! i))) = pre @ (in_idx, in_data) # post \<and>
          lookup_fails (build_links lks) ops (fst (ops ! i)) in_idx \<longrightarrow>
            map_of (compile_inputs (build_links lks) ops (fst (ops ! i)) (pre @ [(in_idx, in_data)]))
              (prop_name (io_properties in_data)) = Some None \<and>
            (prop_name (io_properties in_data) \<notin> input_name ` set post \<longrightarrow>
               map_of (t_inputs (?tasks ! i)) (prop_name (io_properties in_data)) = Some None)"
      using unresolved by blast
    show "lks = [] \<longrightarrow> (\<forall>t \<in> set ?tasks. \<forall>kv \<in> set (t_inputs t). snd kv = None)"
      using nolinks by blast
  qed
qed

theorem C7_unresolved_inputs_are_null_witness:
  "(\<exists>tasks. parse_to_list strconv_convert dangling_workflow = Inr tasks \<and> length tasks = 2 \<and>
      map_of (t_inputs (tasks ! 1)) ''DemoTaskTwoInput'' = Some None) \<and>
   (\<exists>tasks. parse_to_list strconv_convert unlinked_workflow = Inr tasks \<and> length tasks = 2 \<and>
      list_all (\<lambda>t. list_all (\<lambda>kv. snd kv = None) (t_inputs t)) tasks)"
proof -
  let ?ops = "[(''op_0'', demo_op_0), (''op_1'', demo_op_1)]"
  let ?lks = "[(''0'', demo_link\<lparr>fromOperator := ''op_9''\<rparr>)]"
  have d1: "links dangling_workflow = Some ?lks" by (simp add: dangling_workflow_def)
  have d2: "operators dangling_workflow = Some ?ops" by (simp add: dangling_workflow_def)
  from C7_unresolved_inputs_are_null [OF d1 d2, of strconv_convert]
  obtain tasks where run: "parse_to_list strconv_convert dangling_workflow = Inr tasks"
    and len: "length tasks = length ?ops"
    and un: "\<And>i pre in_idx in_data post.
          i < length ?ops \<Longrightarrow>
          op_inputs (op_properties (snd (?ops ! i))) = pre @ (in_idx, in_data) # post \<Longrightarrow>
          lookup_fails (build_links ?lks) ?ops (fst (?ops ! i)) in_idx \<Longrightarrow>
          prop_name (io_properties in_data) \<notin> input_name ` set post \<Longrightarrow>
          map_of (t_inputs (tasks ! i)) (prop_name (io_properties in_data)) = Some None"
    by blast
  have "map_of (t_inputs (tasks ! 1)) (prop_name (io_properties demo_input)) = Some None"
  proof (rule un [of 1 "[]" "''in_0''" demo_input "[]"])
    show "1 < length ?ops" by simp
    show "op_inputs (op_properties (snd (?ops ! 1))) = [] @ (''in_0'', demo_input) # []"
      by (simp add: demo_op_1_def)
    show "lookup_fails (build_links ?lks) ?ops (fst (?ops ! 1)) ''in_0''"
      by (simp add: lookup_fails_def build_links_def add_link_def demo_link_def)
    show "prop_name (io_properties demo_input) \<notin> input_name ` set []" by simp
  qed
  then have first: "\<exists>tasks. parse_to_list strconv_convert dangling_workflow = Inr tasks \<and>
      length tasks = 2 \<and> map_of (t_inputs (tasks ! 1)) ''DemoTaskTwoInput'' = Some None"
    using run len by (auto simp: demo_input_def)
  have u1: "links unlinked_workflow = Some []" by (simp add: unlinked_workflow_def)
  have u2: "operators unlinked_workflow = Some ?ops" by (simp add: unlinked_workflow_def)
  from C7_unresolved_inputs_are_null [OF u1 u2, of strconv_convert]
  obtain tasks' where run': "parse_to_list strconv_convert unlinked_workflow = Inr tasks'"
    and len': "length tasks' = length ?ops"
    and nul: "\<forall>t \<in> set tasks'. \<forall>kv \<in> set (t_inputs t). snd kv = None"
    by blast
  from nul have "list_all (\<lambda>t. list_all (\<lambda>kv. snd kv = None) (t_inputs t)) tasks'"
    by (simp add: list_all_iff)
  with run' len' have second: "\<exists>tasks. parse_to_list strconv_convert unlinked_workflow = Inr tasks \<and>
      length tasks = 2 \<and> list_all (\<lambda>t. list_all (\<lambda>kv. snd kv = None) (t_inputs t)) tasks"
    by auto
  from first second show ?thesis by blast
qed

section \<open>Properties of the task node's name\<close>

lemma takeWhile_until:
  "c \<notin> set a \<Longrightarrow> takeWhile (\<lambda>x. x \<noteq> c) (a @ c # b) = a"
  by (induction a) auto

lemma split_at_first:
  assumes "a @ c # b = a' @ c # b'" and "c \<notin> set a" and "c \<notin> set a'"
  shows "a = a' \<and> b = b'"
proof -
  have "takeWhile (\<lambda>x. x \<noteq> c) (a @ c # b) = a"
    using assms(2) by (rule takeWhile_until)
  moreover have "takeWhile (\<lambda>x. x \<noteq> c) (a' @ c # b') = a'"
    using assms(3) by (rule takeWhile_until)
  ultimately have "a = a'" using assms(1) by simp
  with assms(1) show ?thesis by simp
qed

lemma split_at_last:
  assumes "b @ c # a = b' @ c # a'" and "c \<notin> set a" and "c \<notin> set a'"
  shows "a = a' \<and> b = b'"
proof -
  from assms(1) have "rev (b @ c # a) = rev (b' @ c # a')" by simp
  then have "rev a @ c # rev b = rev a' @ c # rev b'" by simp
  moreover have "c \<notin> set (rev a)" and "c \<notin> set (rev a')" using assms(2,3) by simp_all
  ultimately have "rev a = rev a' \<and> rev b = rev b'"
    by (rule split_at_first)
  then show ?thesis by simp
qed

text \<open>
  C9, as claimed: distinct pairs of workflow id and operator key give distinct task
  nodes. With one definition URI, the workflow \<^verbatim>\<open>a-b\<close> with its operator \<^verbatim>\<open>c\<close> and the
  workflow \<^verbatim>\<open>a\<close> with its operator \<^verbatim>\<open>b-c\<close> get the same node.
\<close>

theorem C9_collision_counterexample:
  "rdf_task_node ''https://www.w3.org/#Component0'' ''a-b'' ''c''
     = rdf_task_node ''https://www.w3.org/#Component0'' ''a'' ''b-c'' \<and>
   (''a-b'', ''c'') \<noteq> (''a'', ''b-c'')"
  by (simp add: rdf_task_node_def)

text \<open>
  C9, amended. Within one workflow and one definition URI, distinct operator keys give
  distinct nodes. For one definition URI and workflow ids without a hyphen (as the
  generated ids, \<^verbatim>\<open>uuid4().hex\<close>, are), distinct pairs of workflow id and operator key
  give distinct nodes. When the operator keys have no hyphen either, the node
  determines the definition URI, the workflow id and the operator key.
\<close>

theorem C9_injective_without_hyphen:
  "(k1 \<noteq> k2 \<longrightarrow> rdf_task_node uri w k1 \<noteq> rdf_task_node uri w k2) \<and>
   (CHR ''-'' \<notin> set w1 \<and> CHR ''-'' \<notin> set w2 \<and> (w1, k1) \<noteq> (w2, k2) \<longrightarrow>
      rdf_task_node uri w1 k1 \<noteq> rdf_task_node uri w2 k2) \<and>
   (CHR ''-'' \<notin> set w1 \<and> CHR ''-'' \<notin> set w2 \<and> CHR ''-'' \<notin> set k1 \<and> CHR ''-'' \<notin> set k2 \<and>
    (uri1, w1, k1) \<noteq> (uri2, w2, k2) \<longrightarrow>
      rdf_task_node uri1 w1 k1 \<noteq> rdf_task_node uri2 w2 k2)"
proof (intro conjI impI)
  assume "k1 \<noteq> k2"
  then show "rdf_task_node uri w k1 \<noteq> rdf_task_node uri w k2"
    by (simp add: rdf_task_node_def)
next
  assume h: "CHR ''-'' \<notin> set w1 \<and> CHR ''-'' \<notin> set w2 \<and> (w1, k1) \<noteq> (w2, k2)"
  then have n1: "CHR ''-'' \<notin> set w1" and n2: "CHR ''-'' \<notin> set w2" by blast+
  show "rdf_task_node uri w1 k1 \<noteq> rdf_task_node uri w2 k2"
  proof
    assume "rdf_task_node uri w1 k1 = rdf_task_node uri w2 k2"
    then have "w1 @ CHR ''-'' # k1 = w2 @ CHR ''-'' # k2"
      by (simp add: rdf_task_node_def)
    then have "w1 = w2 \<and> k1 = k2"
      using n1 n2 by (rule split_at_first)
    with h show False by simp
  qed
next
  assume h: "CHR ''-'' \<notin> set w1 \<and> CHR ''-'' \<notin> set w2 \<and> CHR ''-'' \<notin> set k1 \<and>
    CHR ''-'' \<notin> set k2 \<and> (uri1, w1, k1) \<noteq> (uri2, w2, k2)"
  then have n1: "CHR ''-'' \<notin> set w1" and n2: "CHR ''-'' \<notin> set w2"
    and m1: "CHR ''-'' \<notin> set k1" and m2: "CHR ''-'' \<notin> set k2" by blast+
  show "rdf_task_node uri1 w1 k1 \<noteq> rdf_task_node uri2 w2 k2"
  proof
    assume "rdf_task_node uri1 w1 k1 = rdf_task_node uri2 w2 k2"
    then have e: "(uri1 @ CHR ''-'' # w1) @ CHR ''-'' # k1 = (uri2 @ CHR ''-'' # w2) @ CHR ''-'' # k2"
      by (simp add: rdf_task_node_def)
    from e m1 m2 have 1: "k1 = k2 \<and> uri1 @ CHR ''-'' # w1 = uri2 @ CHR ''-'' # w2"
      by (rule split_at_last)
    then have "uri1 @ CHR ''-'' # w1 = uri2 @ CHR ''-'' # w2" by simp
    from this n1 n2 have "w1 = w2 \<and> uri1 = uri2"
      by (rule split_at_last)
    with 1 h show False by simp
  qed
qed

theorem C9_injective_without_hyphen_witness:
  "rdf_task_node ''https://www.w3.org/#Component0'' ''9f1c'' ''op_0''
     \<noteq> rdf_task_node ''https://www.w3.org/#Component0'' ''9f1c'' ''op_1'' \<and>
   rdf_task_node ''https://www.w3.org/#Component0'' ''9f1c'' ''op_0''
     \<noteq> rdf_task_node ''https://www.w3.org/#Component0'' ''77ab'' ''op_0'' \<and>
   rdf_task_node ''https://www.w3.org/#Component0'' ''9f1c'' ''op_0''
     \<noteq> rdf_task_node ''https://www.w3.org/#Component1'' ''9f1c'' ''op_0''"
  using
    C9_injective_without_hyphen [of "''op_0''" "''op_1''" "''https://www.w3.org/#Component0''"
      "''9f1c''" "''9f1c''" "''77ab''" "''https://www.w3.org/#Component0''"
      "''https://www.w3.org/#Component1''"]
    C9_injective_without_hyphen [of "''op_0''" "''op_0''" "''https://www.w3.org/#Component0''"
      "''9f1c''" "''9f1c''" "''77ab''" "''https://www.w3.org/#Component0''"
      "''https://www.w3.org/#Component1''"]
    C9_injective_without_hyphen [of "''op_0''" "''op_0''" "''https://www.w3.org/#Component0''"
      "''9f1c''" "''9f1c''" "''9f1c''" "''https://www.w3.org/#Component0''"
      "''https://www.w3.org/#Component1''"]
  by simp

section \<open>Properties of the parameter coercion\<close>

lemma strconv_examples:
  "strconv_convert (PStr ''3.14'') = Some (PFloat 3.14)"
  "strconv_convert (PStr ''one'') = Some (PStr ''one'')"
  by (simp_all add: strconv_defs)

text \<open>
  C8. The round of the loop for a parameter stores, under the parameter's display
  name, the raw value when the converter raises \<^verbatim>\<open>ValueError\<close>, and the converter's
  result otherwise; the emitted task holds that value unless a later parameter of the
  operator has the same display name. With the converter as the specification
  describes it, the string \<^verbatim>\<open>3.14\<close> becomes the float 3.14 and the string \<^verbatim>\<open>one\<close> stays
  the string \<^verbatim>\<open>one\<close>, and the two are recorded so.
\<close>

theorem C8_params_coerced_or_raw:
  "(conv (pp_value (par_properties param_data)) = None \<longrightarrow>
      map_of (compile_params conv (pre @ [(param_idx, param_data)]))
        (prop_name (par_properties param_data)) = Some (pp_value (par_properties param_data))) \<and>
   (\<forall>v. conv (pp_value (par_properties param_data)) = Some v \<longrightarrow>
      map_of (compile_params conv (pre @ [(param_idx, param_data)]))
        (prop_name (par_properties param_data)) = Some v) \<and>
   (op_parameters op_data = pre @ (param_idx, param_data) # post \<and>
    prop_name (par_properties param_data) \<notin> param_name ` set post \<longrightarrow>
      map_of (t_params (compile_operator conv idx ops (op_idx, op_data)))
        (prop_name (par_properties param_data))
        = Some (convert_param conv (pp_value (par_properties param_data)))) \<and>
   strconv_convert (PStr ''3.14'') = Some (PFloat 3.14) \<and>
   strconv_convert (PStr ''one'') = Some (PStr ''one'') \<and>
   compile_params strconv_convert
     [(''param_0'',
       \<lparr>par_properties = \<lparr>prop_name = ''pi'', pp_value = PStr ''3.14'', pp_defaultValue = PNone\<rparr>,
        par_definition = None\<rparr>),
      (''param_1'', demo_param_1)]
     = [(''pi'', PFloat 3.14), (''param1'', PStr ''one'')]"
proof -
  let ?x = "(param_idx, param_data)"
  have nm: "param_name ?x = prop_name (par_properties param_data)"
    by (simp add: param_name_def)
  have val: "param_value conv ?x = convert_param conv (pp_value (par_properties param_data))"
    by (simp add: param_value_def)
  have rec: "map_of (compile_params conv (pre @ [?x])) (prop_name (par_properties param_data))
      = Some (convert_param conv (pp_value (par_properties param_data)))"
    using compile_params_last [of conv pre ?x] by (simp add: nm val)
  have fin: "map_of (t_params (compile_operator conv idx ops (op_idx, op_data)))
        (prop_name (par_properties param_data))
        = Some (convert_param conv (pp_value (par_properties param_data)))"
    if "op_parameters op_data = pre @ ?x # post"
      and "prop_name (par_properties param_data) \<notin> param_name ` set post"
    using that compile_params_final [of ?x post conv pre]
    by (simp add: nm val compile_operator_fields)
  have ex: "compile_params strconv_convert
     [(''param_0'',
       \<lparr>par_properties = \<lparr>prop_name = ''pi'', pp_value = PStr ''3.14'', pp_defaultValue = PNone\<rparr>,
        par_definition = None\<rparr>),
      (''param_1'', demo_param_1)]
     = [(''pi'', PFloat 3.14), (''param1'', PStr ''one'')]"
    by (simp add: compile_params_def param_step_def convert_param_def strconv_examples
        demo_param_1_def)
  from rec fin ex strconv_examples show ?thesis
    by (simp add: convert_param_def)
qed

theorem C8_params_coerced_or_raw_witness:
  "map_of (compile_params (\<lambda>v. if v = PStr ''one'' then None else strconv_convert v)
             ([] @ [(''param_1'', demo_param_1)])) ''param1'' = Some (PStr ''one'') \<and>
   map_of (t_params (compile_operator strconv_convert (\<lambda>_. Map.empty) [] (''op_0'', demo_op_0)))
      ''param0'' = Some (PInt 0)"
proof -
  let ?conv = "\<lambda>v. if v = PStr ''one'' then None else strconv_convert v"
  have v: "pp_value (par_properties demo_param_1) = PStr ''one''"
    and n: "prop_name (par_properties demo_param_1) = ''param1''"
    by (simp_all add: demo_param_1_def)
  have v0: "pp_value (par_properties demo_param_0) = PInt 0"
    and n0: "prop_name (par_properties demo_param_0) = ''param0''"
    by (simp_all add: demo_param_0_def)
  have fails: "?conv (pp_value (par_properties demo_param_1)) = None" by (simp add: v)
  have a: "map_of (compile_params ?conv ([] @ [(''param_1'', demo_param_1)])) ''param1''
      = Some (PStr ''one'')"
    using C8_params_coerced_or_raw [of ?conv demo_param_1 "[]" "''param_1''"] fails
    by (simp add: v n)
  have split: "op_parameters demo_op_0 = [] @ (''param_0'', demo_param_0) # [(''param_1'', demo_param_1)]"
    by (simp add: demo_op_0_def)
  have later: "prop_name (par_properties demo_param_0) \<notin> param_name ` set [(''param_1'', demo_param_1)]"
    by (simp add: param_name_def n n0)
  have b: "map_of (t_params (compile_operator strconv_convert (\<lambda>_. Map.empty) [] (''op_0'', demo_op_0)))
      ''param0'' = Some (PInt 0)"
    using C8_params_coerced_or_raw [of strconv_convert demo_param_0 "[]" "''param_0''" demo_op_0
        "[(''param_1'', demo_param_1)]" "\<lambda>_. Map.empty" "[]" "''op_0''"] split later
    by (simp add: v0 n0 convert_param_def strconv_convert_def)
  from a b show ?thesis by simp
qed

section \<open>Display names as keys\<close>

lemma not_distinct_card_less:
  assumes "\<not> distinct (map f xs)"
  shows "card (f ` set xs) < length xs"
proof -
  have "card (set (map f xs)) \<le> length (map f xs)" by (rule card_length)
  moreover have "card (set (map f xs)) \<noteq> length (map f xs)"
    using assms card_distinct by blast
  ultimately show ?thesis by simp
qed

lemma compile_params_keys:
  "fst ` set (compile_params conv ps) = param_name ` set ps"
  unfolding compile_params_def param_step_eq
  using foldl_update_keys [of param_name "param_value conv" "[]" ps] by simp

lemma compile_inputs_keys:
  "fst ` set (compile_inputs idx ops op_idx ins) = input_name ` set ins"
  unfolding compile_inputs_def input_step_eq
  using foldl_update_keys [of input_name "input_value idx ops op_idx" "[]" ins] by simp

lemma compile_params_length:
  "length (compile_params conv ps) = card (param_name ` set ps)"
  unfolding compile_params_def param_step_eq by (rule foldl_update_length)

lemma compile_inputs_length:
  "length (compile_inputs idx ops op_idx ins) = card (input_name ` set ins)"
  unfolding compile_inputs_def input_step_eq by (rule foldl_update_length)

text \<open>
  C10. The keys of a task's \<^verbatim>\<open>params\<close> and \<^verbatim>\<open>inputs\<close> are the display names of the
  operator's parameters and input connectors, not their keys in the operator's
  mappings. Under a display name the task holds the value of the last parameter (or
  input connector) that carries it, so an earlier one of the same name is overwritten;
  and when two of them share a display name the task has fewer entries than the
  operator declares.
\<close>

theorem C10_keyed_by_display_name:
  "fst ` set (t_params (compile_operator conv idx ops (op_idx, op_data)))
     = param_name ` set (op_parameters op_data) \<and>
   fst ` set (t_inputs (compile_operator conv idx ops (op_idx, op_data)))
     = input_name ` set (op_inputs (op_properties op_data)) \<and>
   (\<forall>pre x post.
      op_parameters op_data = pre @ x # post \<and> param_name x \<notin> param_name ` set post \<longrightarrow>
        map_of (t_params (compile_operator conv idx ops (op_idx, op_data))) (param_name x)
          = Some (param_value conv x)) \<and>
   (\<forall>pre x post.
      op_inputs (op_properties op_data) = pre @ x # post \<and> input_name x \<notin> input_name ` set post \<longrightarrow>
        map_of (t_inputs (compile_operator conv idx ops (op_idx, op_data))) (input_name x)
          = Some (input_value idx ops op_idx x)) \<and>
   (\<not> distinct (map param_name (op_parameters op_data)) \<longrightarrow>
      length (t_params (compile_operator conv idx ops (op_idx, op_data)))
        < length (op_parameters op_data)) \<and>
   (\<not> distinct (map input_name (op_inputs (op_properties op_data))) \<longrightarrow>
      length (t_inputs (compile_operator conv idx ops (op_idx, op_data)))
        < length (op_inputs (op_properties op_data)))"
proof (intro conjI allI impI)
  show "fst ` set (t_params (compile_operator conv idx ops (op_idx, op_data)))
     = param_name ` set (op_parameters op_data)"
    by (simp add: compile_operator_fields compile_params_keys)
  show "fst ` set (t_inputs (compile_operator conv idx ops (op_idx, op_data)))
     = input_name ` set (op_inputs (op_properties op_data))"
    by (simp add: compile_operator_fields compile_inputs_keys)
next
  fix pre x post
  assume "op_parameters op_data = pre @ x # post \<and> param_name x \<notin> param_name ` set post"
  then show "map_of (t_params (compile_operator conv idx ops (op_idx, op_data))) (param_name x)
      = Some (param_value conv x)"
    by (simp add: compile_operator_fields compile_params_final)
next
  fix pre x post
  assume "op_inputs (op_properties op_data) = pre @ x # post \<and>
    input_name x \<notin> input_name ` set post"
  then show "map_of (t_inputs (compile_operator conv idx ops (op_idx, op_data))) (input_name x)
      = Some (input_value idx ops op_idx x)"
    by (simp add: compile_operator_fields compile_inputs_final)
next
  assume "\<not> distinct (map param_name (op_parameters op_data))"
  then show "length (t_params (compile_operator conv idx ops (op_idx, op_data)))
      < length (op_parameters op_data)"
    by (simp add: compile_operator_fields compile_params_length not_distinct_card_less)
next
  assume "\<not> distinct (map input_name (op_inputs (op_properties op_data)))"
  then show "length (t_inputs (compile_operator conv idx ops (op_idx, op_data)))
      < length (op_inputs (op_properties op_data))"
    by (simp add: compile_operator_fields compile_inputs_length not_distinct_card_less)
qed

lemma clash_op_compiles:
  "compile_operator strconv_convert (\<lambda>_. Map.empty) [] (''op_0'', clash_op) =
     \<lparr>t_name = ''Clash'', t_module = ''ClashModule'',
      t_params = [(''p'', PInt 2)], t_inputs = [(''x'', None)]\<rparr>"
  by (simp add: clash_op_def compile_defs strconv_defs)

theorem C10_keyed_by_display_name_witness:
  "length (t_params (compile_operator strconv_convert (\<lambda>_. Map.empty) [] (''op_0'', clash_op))) < 2 \<and>
   length (t_inputs (compile_operator strconv_convert (\<lambda>_. Map.empty) [] (''op_0'', clash_op))) < 2 \<and>
   map_of (t_params (compile_operator strconv_convert (\<lambda>_. Map.empty) [] (''op_0'', clash_op))) ''p''
     = Some (PInt 2)"
proof -
  let ?task = "compile_operator strconv_convert (\<lambda>_. Map.empty) [] (''op_0'', clash_op)"
  let ?p1 = "(''param_1'',
          \<lparr>par_properties = \<lparr>prop_name = ''p'', pp_value = PStr ''2'', pp_defaultValue = PNone\<rparr>,
           par_definition = None\<rparr>)"
  note c10 = C10_keyed_by_display_name [of strconv_convert "\<lambda>_. Map.empty" "[]" "''op_0''" clash_op]
  have dp: "\<not> distinct (map param_name (op_parameters clash_op))"
    by (simp add: clash_op_def param_name_def)
  have di: "\<not> distinct (map input_name (op_inputs (op_properties clash_op)))"
    by (simp add: clash_op_def input_name_def)
  have lp: "length (op_parameters clash_op) = 2" and li: "length (op_inputs (op_properties clash_op)) = 2"
    by (simp_all add: clash_op_def)
  from c10 dp lp have a: "length (t_params ?task) < 2" by simp
  from c10 di li have b: "length (t_inputs ?task) < 2" by simp
  from c10 have "\<forall>pre x post.
      op_parameters clash_op = pre @ x # post \<and> param_name x \<notin> param_name ` set post \<longrightarrow>
        map_of (t_params ?task) (param_name x) = Some (param_value strconv_convert x)"
    by blast
  then have "op_parameters clash_op = [hd (op_parameters clash_op)] @ ?p1 # [] \<and>
      param_name ?p1 \<notin> param_name ` set [] \<longrightarrow>
        map_of (t_params ?task) (param_name ?p1) = Some (param_value strconv_convert ?p1)"
    by blast
  then have c: "map_of (t_params ?task) ''p'' = Some (PInt 2)"
    by (simp add: clash_op_def param_name_def param_value_def convert_param_def strconv_defs)
  from a b c show ?thesis by simp
qed

end
